theory Spec2Isabelle
  imports Complex_Main "HOL-Library.Multiset"
begin

section \<open>Price sources: \<open>src/analysis/price_sources/base.py\<close>\<close>

text \<open>
  Python floats are modelled as real numbers: every operation of the source is taken
  exactly, without rounding, and without the special values (infinities, NaN).
  Python integers are \<open>int\<close>. A field of type \<open>Optional[float]\<close> is a
  \<open>real option\<close>, with \<open>None\<close> for Python's \<open>None\<close>.
\<close>

datatype SourceType = DVF | COMMUNE_STATS | LISTINGS | NOTAIRES

datatype ReliabilityLevel = HIGH | MEDIUM | LOW | INSUFFICIENT

text \<open>
  The dataclass \<open>PriceEstimate\<close> (its field \<open>notes\<close> is \<open>est_notes\<close> here,
  the word being reserved). The fields \<open>comparables\<close> and \<open>retrieved_at\<close>
  are display data that no operation below reads; they are left out.
\<close>

record PriceEstimate =
  source_type :: SourceType
  source_name :: string
  prix_m2 :: "real option"
  prix_total :: "real option"
  nb_data_points :: int
  date_range_days :: int
  geographic_match :: string
  source_url :: "string option"
  est_notes :: string

text \<open>The property \<open>PriceEstimate.confidence_score\<close>, one component per \<open>if\<close> chain.\<close>

definition points_score :: "int \<Rightarrow> real" where
  "points_score n =
     (if n \<ge> 20 then 40 else if n \<ge> 10 then 30 else if n \<ge> 5 then 20
      else if n \<ge> 3 then 10 else 0)"

definition recency_score :: "int \<Rightarrow> real" where
  "recency_score d =
     (if d \<le> 180 then 30 else if d \<le> 365 then 20 else if d \<le> 730 then 10 else 0)"

definition geographic_score :: "string \<Rightarrow> real" where
  "geographic_score g =
     (if g = ''exact'' then 30 else if g = ''commune'' then 20
      else if g = ''department'' then 10 else 0)"

definition confidence_score :: "PriceEstimate \<Rightarrow> real" where
  "confidence_score e =
     0 + points_score (nb_data_points e) + recency_score (date_range_days e)
       + geographic_score (geographic_match e)"

text \<open>
  Truth value of an \<open>Optional[float]\<close> in a condition (\<open>if estimate.prix_m2:\<close>):
  \<open>None\<close> and \<open>0.0\<close> are false, every other number is true.
\<close>

definition truthy :: "real option \<Rightarrow> bool" where
  "truthy v = (case v of None \<Rightarrow> False | Some x \<Rightarrow> x \<noteq> 0)"

text \<open>The dataclass \<open>MultiSourceEstimate\<close>, with all its fields.\<close>

record MultiSourceEstimate =
  estimates :: "PriceEstimate list"
  prix_m2_combined :: "real option"
  prix_m2_min :: "real option"
  prix_m2_max :: "real option"
  reliability :: ReliabilityLevel
  reliability_score :: real
  sources_agreement :: real
  dvf_estimate :: "real option"
  listings_estimate :: "real option"
  commune_estimate :: "real option"
  analysis_notes :: "string list"

text \<open>The state built by \<open>MultiSourceEstimate()\<close>: the defaults of the dataclass.\<close>

definition empty_estimate :: MultiSourceEstimate where
  "empty_estimate =
     \<lparr> estimates = [], prix_m2_combined = None, prix_m2_min = None, prix_m2_max = None,
       reliability = INSUFFICIENT, reliability_score = 0, sources_agreement = 0,
       dvf_estimate = None, listings_estimate = None, commune_estimate = None,
       analysis_notes = [] \<rparr>"

text \<open>
  Python's \<open>min\<close> and \<open>max\<close> of a list, which scan it from the left and keep the first
  extreme element. Both are called on non-empty lists only.
\<close>

definition py_min :: "real list \<Rightarrow> real" where
  "py_min ps = foldl min (hd ps) (tl ps)"

definition py_max :: "real list \<Rightarrow> real" where
  "py_max ps = foldl max (hd ps) (tl ps)"

text \<open>The prices read by \<open>[e.prix_m2 for e in ... if e.prix_m2]\<close>.\<close>

definition prices_of :: "PriceEstimate list \<Rightarrow> real list" where
  "prices_of es = map (\<lambda>e. the (prix_m2 e)) (filter (\<lambda>e. truthy (prix_m2 e)) es)"

text \<open>\<open>MultiSourceEstimate._calculate_reliability\<close>; \<open>x ** 0.5\<close> is the square root.\<close>

definition level_of :: "real \<Rightarrow> nat \<Rightarrow> ReliabilityLevel" where
  "level_of score n =
     (if score \<ge> 70 \<and> n \<ge> 2 then HIGH
      else if score \<ge> 40 then MEDIUM
      else if score > 0 then LOW
      else INSUFFICIENT)"

definition agreement_of :: "real list \<Rightarrow> real" where
  "agreement_of prices =
     (if length prices \<ge> 2 then
        (let mean_price = sum_list prices / real (length prices) in
         if mean_price > 0 then
           (let std_dev = sqrt (sum_list (map (\<lambda>p. (p - mean_price)\<^sup>2) prices)
                                / real (length prices));
                cv = std_dev / mean_price
            in max 0 (100 - cv * 200))
         else 0)
      else 50)"

definition calculate_reliability :: "MultiSourceEstimate \<Rightarrow> MultiSourceEstimate" where
  "calculate_reliability s =
     (if estimates s = [] then s\<lparr> reliability := INSUFFICIENT, reliability_score := 0 \<rparr>
      else
        (let avg_confidence = sum_list (map confidence_score (estimates s))
                                / real (length (estimates s));
             source_bonus = min 20 (real (length (estimates s)) * 10);
             agreement = agreement_of (prices_of (estimates s));
             score = min 100 (avg_confidence * 0.5 + source_bonus + agreement * 0.3)
         in s\<lparr> sources_agreement := agreement,
               reliability_score := score,
               reliability := level_of score (length (estimates s)) \<rparr>))"

text \<open>
  The loop of \<open>_recalculate\<close> that stores the price of each estimate under its source
  type; a later estimate of the same type overwrites an earlier one.
\<close>

definition store_by_type :: "MultiSourceEstimate \<Rightarrow> PriceEstimate \<Rightarrow> MultiSourceEstimate" where
  "store_by_type s e =
     (if source_type e = DVF then s\<lparr> dvf_estimate := prix_m2 e \<rparr>
      else if source_type e = LISTINGS then s\<lparr> listings_estimate := prix_m2 e \<rparr>
      else if source_type e = COMMUNE_STATS then s\<lparr> commune_estimate := prix_m2 e \<rparr>
      else s)"

text \<open>\<open>MultiSourceEstimate._recalculate\<close>.\<close>

definition recalculate :: "MultiSourceEstimate \<Rightarrow> MultiSourceEstimate" where
  "recalculate s =
     (let valid_estimates = filter (\<lambda>e. truthy (prix_m2 e)) (estimates s) in
      if valid_estimates = [] then s
      else
        (let prices = map (\<lambda>e. the (prix_m2 e)) valid_estimates;
             weights = map confidence_score valid_estimates;
             combined =
               (if sum_list weights > 0
                then sum_list (map (\<lambda>(p, w). p * w) (zip prices weights)) / sum_list weights
                else sum_list prices / real (length prices));
             s1 = s\<lparr> prix_m2_combined := Some combined,
                      prix_m2_min := Some (py_min prices),
                      prix_m2_max := Some (py_max prices) \<rparr>;
             s2 = foldl store_by_type s1 valid_estimates
         in calculate_reliability s2))"

text \<open>\<open>MultiSourceEstimate.add_estimate\<close>.\<close>

definition add_estimate :: "MultiSourceEstimate \<Rightarrow> PriceEstimate \<Rightarrow> MultiSourceEstimate" where
  "add_estimate s estimate =
     (if truthy (prix_m2 estimate)
      then recalculate (s\<lparr> estimates := estimates s @ [estimate] \<rparr>)
      else s)"

text \<open>A sequence of \<open>add_estimate\<close> calls on a fresh \<open>MultiSourceEstimate()\<close>.\<close>

definition add_all :: "PriceEstimate list \<Rightarrow> MultiSourceEstimate" where
  "add_all es = foldl add_estimate empty_estimate es"

section \<open>The transaction-history adapter: \<open>src/analysis/price_sources/dvf_source.py\<close>\<close>

text \<open>The class constants of \<open>DVFPriceSource\<close>.\<close>

definition MIN_PRICE_M2 :: real where
  "MIN_PRICE_M2 = 500"

definition MAX_PRICE_M2 :: real where
  "MAX_PRICE_M2 = 15000"

definition MIN_COMPARABLES :: nat where
  "MIN_COMPARABLES = 3"

text \<open>
  The aggregation inlined in \<open>DVFPriceSource.get_price_estimate\<close> (lines 81 to 114).
  A sample is the field \<open>prix_m2\<close> of one transaction, an \<open>Optional[float]\<close>.
  The loop appends to \<open>valid_prices\<close> each sample that is true as a condition and
  lies within the two bounds.
\<close>

fun collect_valid :: "real list \<Rightarrow> real option list \<Rightarrow> real list" where
  "collect_valid valid_prices [] = valid_prices"
| "collect_valid valid_prices (t # ts) =
     (if truthy t \<and> MIN_PRICE_M2 \<le> the t \<and> the t \<le> MAX_PRICE_M2
      then collect_valid (valid_prices @ [the t]) ts
      else collect_valid valid_prices ts)"

text \<open>
  Lines 109 to 114: \<open>valid_prices.sort()\<close>, then the element in the middle or the mean
  of the two in the middle. It runs on three values or more, so both indices are in range.
\<close>

definition median_price :: "real list \<Rightarrow> real" where
  "median_price valid_prices =
     (let vs = sort valid_prices; n = length vs in
      if n mod 2 = 0 then (vs ! (n div 2 - 1) + vs ! (n div 2)) / 2
      else vs ! (n div 2))"

text \<open>
  The pair (central value, number of valid samples) that the adapter puts into its
  \<open>PriceEstimate\<close>: \<open>None\<close> and the count when fewer than \<open>MIN_COMPARABLES\<close> samples
  are valid, the median and the count otherwise. (The adapter then stores the median
  rounded to a whole number, at line 126.)
\<close>

definition aggregate :: "real option list \<Rightarrow> real option \<times> nat" where
  "aggregate transactions =
     (let valid_prices = collect_valid [] transactions in
      if length valid_prices < MIN_COMPARABLES then (None, length valid_prices)
      else (Some (median_price valid_prices), length valid_prices))"

section \<open>Cross-source validation: \<open>src/scrapers/cross_validator.py\<close>\<close>

subsection \<open>Strings\<close>

text \<open>
  A Python string is a list of characters; a character of the model stands for the code
  point of the same number, so the model covers the strings made of the code points 0 to
  255. The two functions of the Python library that the module calls and that are not
  modelled here are parameters of the definitions below:
  \<^item> \<open>ratio\<close>, for \<open>difflib.SequenceMatcher(None, a, b).ratio()\<close>;
  \<^item> \<open>pystr\<close>, for the built-in \<open>str\<close> on a value that is not a string.
\<close>

datatype error = ZeroDivisionError | AttributeError | TypeError

text \<open>
  White space as \<open>str.strip\<close> and the pattern \<open>\s\<close> see it, and the decimal digits
  of \<open>\d\<close>, among the code points 0 to 255.
\<close>

definition is_space :: "char \<Rightarrow> bool" where
  "is_space c = ((of_char c :: nat) \<in> {9, 10, 11, 12, 13, 28, 29, 30, 31, 32, 133, 160})"

definition is_digit :: "char \<Rightarrow> bool" where
  "is_digit c = (48 \<le> (of_char c :: nat) \<and> (of_char c :: nat) \<le> 57)"

text \<open>
  \<open>str.lower\<close> on one character: the letters A to Z and the accented capitals
  (192 to 222, without the multiplication sign 215) move up by 32.
\<close>

definition lower_char :: "char \<Rightarrow> char" where
  "lower_char c =
     (let n = (of_char c :: nat) in
      if (65 \<le> n \<and> n \<le> 90) \<or> (192 \<le> n \<and> n \<le> 222 \<and> n \<noteq> 215) then char_of (n + 32)
      else c)"

definition lower :: "string \<Rightarrow> string" where
  "lower text = map lower_char text"

definition strip :: "string \<Rightarrow> string" where
  "strip text = rev (dropWhile is_space (rev (dropWhile is_space text)))"

text \<open>\<open>re.sub(r'\s+', ' ', text)\<close>: every maximal run of white space becomes one space.\<close>

function collapse_spaces :: "string \<Rightarrow> string" where
  "collapse_spaces [] = []"
| "collapse_spaces (c # cs) =
     (if is_space c then CHR '' '' # collapse_spaces (dropWhile is_space cs)
      else c # collapse_spaces cs)"
  by pat_completeness auto
termination
  by (relation "measure length") (auto simp add: length_dropWhile_le less_Suc_eq_le)

text \<open>
  The dictionary \<open>replacements\<close> of \<open>_normalize_text\<close>, in its order: the accented
  small letters, the hyphen and the apostrophe (code point 39).
\<close>

definition replacements :: "(char \<times> char) list" where
  "replacements =
     [(CHR 0xE9, CHR ''e''), (CHR 0xE8, CHR ''e''), (CHR 0xEA, CHR ''e''), (CHR 0xEB, CHR ''e''),
      (CHR 0xE0, CHR ''a''), (CHR 0xE2, CHR ''a''), (CHR 0xE4, CHR ''a''),
      (CHR 0xF9, CHR ''u''), (CHR 0xFB, CHR ''u''), (CHR 0xFC, CHR ''u''),
      (CHR 0xF4, CHR ''o''), (CHR 0xF6, CHR ''o''),
      (CHR 0xEE, CHR ''i''), (CHR 0xEF, CHR ''i''),
      (CHR 0xE7, CHR ''c''),
      (CHR ''-'', CHR '' ''), (CHR 0x27, CHR '' '')]"

definition replace :: "char \<Rightarrow> char \<Rightarrow> string \<Rightarrow> string" where
  "replace old new text = map (\<lambda>c. if c = old then new else c) text"

text \<open>\<open>CrossValidator._normalize_text\<close>.\<close>

definition normalize_text :: "string \<Rightarrow> string" where
  "normalize_text text =
     (if text = [] then []
      else foldl (\<lambda>t (old, new). replace old new t)
             (collapse_spaces (strip (lower text))) replacements)"










text \<open>
  \<open>re.match(r'^\d{5}$', text)\<close>: five digits, and nothing after them but, as \<open>$\<close>
  allows, one newline.
\<close>

definition match_5_digits :: "string \<Rightarrow> bool" where
  "match_5_digits text =
     (length (take 5 text) = 5 \<and> list_all is_digit (take 5 text)
      \<and> (drop 5 text = [] \<or> drop 5 text = [CHR 0x0A]))"

subsection \<open>The table of postal codes\<close>

text \<open>The dictionary \<open>POSTAL_CODES\<close>, as the list of its items in their order.\<close>

definition POSTAL_CODES :: "(string \<times> string) list" where
  "POSTAL_CODES =
     [(''paris'', ''75001''), (''paris 1er'', ''75001''), (''paris 2eme'', ''75002''),
      (''paris 3eme'', ''75003''), (''paris 4eme'', ''75004''), (''paris 5eme'', ''75005''),
      (''paris 6eme'', ''75006''), (''paris 7eme'', ''75007''), (''paris 8eme'', ''75008''),
      (''paris 9eme'', ''75009''), (''paris 10eme'', ''75010''), (''paris 11eme'', ''75011''),
      (''paris 12eme'', ''75012''), (''paris 13eme'', ''75013''), (''paris 14eme'', ''75014''),
      (''paris 15eme'', ''75015''), (''paris 16eme'', ''75016''), (''paris 17eme'', ''75017''),
      (''paris 18eme'', ''75018''), (''paris 19eme'', ''75019''), (''paris 20eme'', ''75020''),
      (''boulogne-billancourt'', ''92100''), (''nanterre'', ''92000''), (''courbevoie'', ''92400''),
      (''colombes'', ''92700''), (''asnieres-sur-seine'', ''92600''), (''rueil-malmaison'', ''92500''),
      (''levallois-perret'', ''92300''), (''issy-les-moulineaux'', ''92130''), (''neuilly-sur-seine'', ''92200''),
      (''antony'', ''92160''), (''clamart'', ''92140''), (''montrouge'', ''92120''),
      (''meudon'', ''92190''), (''suresnes'', ''92150''), (''puteaux'', ''92800''),
      (''gennevilliers'', ''92230''), (''clichy'', ''92110''), (''malakoff'', ''92240''),
      (''vanves'', ''92170''), (''chatillon'', ''92320''), (''bagneux'', ''92220''),
      (''fontenay-aux-roses'', ''92260''), (''le plessis-robinson'', ''92350''), (''sceaux'', ''92330''),
      (''bourg-la-reine'', ''92340''), (''chatenay-malabry'', ''92290''), (''saint-denis'', ''93200''),
      (''montreuil'', ''93100''), (''aubervilliers'', ''93300''), (''aulnay-sous-bois'', ''93600''),
      (''drancy'', ''93700''), (''noisy-le-grand'', ''93160''), (''pantin'', ''93500''),
      (''bondy'', ''93140''), (''epinay-sur-seine'', ''93800''), (''sevran'', ''93270''),
      (''le blanc-mesnil'', ''93150''), (''bobigny'', ''93000''), (''saint-ouen'', ''93400''),
      (''rosny-sous-bois'', ''93110''), (''livry-gargan'', ''93190''), (''la courneuve'', ''93120''),
      (''bagnolet'', ''93170''), (''le pre-saint-gervais'', ''93310''), (''les lilas'', ''93260''),
      (''romainville'', ''93230''), (''noisy-le-sec'', ''93130''), (''villepinte'', ''93420''),
      (''tremblay-en-france'', ''93290''), (''stains'', ''93240''), (''creteil'', ''94000''),
      (''vitry-sur-seine'', ''94400''), (''saint-maur-des-fosses'', ''94100''), (''champigny-sur-marne'', ''94500''),
      (''ivry-sur-seine'', ''94200''), (''maisons-alfort'', ''94700''), (''fontenay-sous-bois'', ''94120''),
      (''villejuif'', ''94800''), (''vincennes'', ''94300''), (''alfortville'', ''94140''),
      (''choisy-le-roi'', ''94600''), (''le kremlin-bicetre'', ''94270''), (''cachan'', ''94230''),
      (''charenton-le-pont'', ''94220''), (''nogent-sur-marne'', ''94130''), (''joinville-le-pont'', ''94340''),
      (''saint-mande'', ''94160''), (''thiais'', ''94320''), (''orly'', ''94310''),
      (''gentilly'', ''94250''), (''arcueil'', ''94110''), (''fresnes'', ''94260''),
      (''le perreux-sur-marne'', ''94170''), (''bry-sur-marne'', ''94360''), (''sucy-en-brie'', ''94370'')]"


subsection \<open>Auctions\<close>

datatype PropertyType = APPARTEMENT | MAISON | LOCAL_COMMERCIAL | TERRAIN | PARKING | AUTRE

text \<open>
  A \<open>date\<close> is its day number, a \<open>datetime\<close> its position on the time line. An item of
  \<open>documents\<close>, a dictionary, is the list of its items; two of them are equal when these
  lists are.
\<close>

type_synonym date = int


type_synonym document = "(string \<times> string) list"



subsection \<open>Matching two auctions\<close>




subsection \<open>Picking the best value of a field\<close>

text \<open>
  The values that \<open>getattr\<close> reads from an auction: \<open>None\<close>, a string, a float, an
  integer, a property type, a date, a dictionary (an item of \<open>documents\<close>) or a list.
\<close>

datatype pyval =
    PNone
  | PStr string
  | PFloat real
  | PInt int
  | PType PropertyType
  | PDate date
  | PDict document
  | PList "pyval list"

text \<open>The truth value of a value in a condition.\<close>

fun py_truthy :: "pyval \<Rightarrow> bool" where
  "py_truthy PNone = False"
| "py_truthy (PStr s) = (s \<noteq> [])"
| "py_truthy (PFloat x) = (x \<noteq> 0)"
| "py_truthy (PInt i) = (i \<noteq> 0)"
| "py_truthy (PType t) = True"
| "py_truthy (PDate d) = True"
| "py_truthy (PDict d) = (d \<noteq> [])"
| "py_truthy (PList xs) = (xs \<noteq> [])"

text \<open>\<open>str(value)\<close>: a string is itself, any other value goes to the parameter.\<close>

definition str_of :: "(pyval \<Rightarrow> string) \<Rightarrow> pyval \<Rightarrow> string" where
  "str_of pystr v = (case v of PStr s \<Rightarrow> s | _ \<Rightarrow> pystr v)"

text \<open>The test \<open>value == 0\<close>.\<close>

definition is_zero :: "pyval \<Rightarrow> bool" where
  "is_zero v = (v = PFloat 0 \<or> v = PInt 0)"

text \<open>
  The loop that removes duplicates from the merged list: an item is kept when its
  \<open>str\<close> has not been seen.
\<close>

definition keep_unseen ::
  "(pyval \<Rightarrow> string) \<Rightarrow> string set \<times> pyval list \<Rightarrow> pyval \<Rightarrow> string set \<times> pyval list" where
  "keep_unseen pystr = (\<lambda>(seen, unique) item.
     let key = str_of pystr item in
     if key \<notin> seen then (insert key seen, unique @ [item]) else (seen, unique))"

text \<open>
  \<open>CrossValidator._pick_best_value\<close>. The branch of \<open>ville\<close> calls
  \<open>_normalize_text\<close>, which raises \<open>AttributeError\<close> on a value without \<open>lower\<close>; the
  branch of the lists is modelled on lists, and stands as \<open>TypeError\<close> elsewhere.
\<close>

definition pick_best_value ::
  "(pyval \<Rightarrow> string) \<Rightarrow> pyval \<Rightarrow> pyval \<Rightarrow> string \<Rightarrow> string \<Rightarrow> string
     \<Rightarrow> error + pyval \<times> string" where
  "pick_best_value pystr val1 val2 source1 source2 field_name =
     (if \<not> py_truthy val1 \<and> \<not> py_truthy val2 then Inr (PNone, [])
      else if py_truthy val1 \<and> \<not> py_truthy val2 then Inr (val1, source1)
      else if py_truthy val2 \<and> \<not> py_truthy val1 then Inr (val2, source2)
      else if field_name \<in> set [''adresse'', ''description'', ''avocat_adresse''] then
        (if length (str_of pystr val1) > length (str_of pystr val2) then Inr (val1, source1)
         else Inr (val2, source2))
      else if field_name \<in> set [''code_postal''] then
        (let v1_valid = match_5_digits (str_of pystr val1);
             v2_valid = match_5_digits (str_of pystr val2)
         in if v1_valid \<and> \<not> v2_valid then Inr (val1, source1)
            else if v2_valid \<and> \<not> v1_valid then Inr (val2, source2)
            else Inr (val1, source1))
      else if field_name \<in> set [''ville''] then
        (case (val1, val2) of
           (PStr s1, PStr s2) \<Rightarrow>
             (let v1_known = (map_of POSTAL_CODES (normalize_text s1) \<noteq> None);
                  v2_known = (map_of POSTAL_CODES (normalize_text s2) \<noteq> None)
              in if v1_known \<and> \<not> v2_known then Inr (val1, source1)
                 else if v2_known \<and> \<not> v1_known then Inr (val2, source2)
                 else if length s1 > length s2 then Inr (val1, source1)
                 else if length s2 > length s1 then Inr (val2, source2)
                 else Inr (val2, source2))
         | _ \<Rightarrow> Inl AttributeError)
      else if field_name \<in> set [''surface'', ''nb_pieces'', ''nb_chambres'', ''mise_a_prix''] then
        (if py_truthy val1 \<and> (\<not> py_truthy val2 \<or> is_zero val2) then Inr (val1, source1)
         else if py_truthy val2 \<and> (\<not> py_truthy val1 \<or> is_zero val1) then Inr (val2, source2)
         else Inr (val1, source1))
      else if field_name \<in> set [''photos'', ''documents''] then
        (case (val1, val2) of
           (PList xs, PList ys) \<Rightarrow>
             Inr (PList (snd (foldl (keep_unseen pystr) ({}, []) (xs @ ys))),
                  source1 @ ''+'' @ source2)
         | _ \<Rightarrow> Inl TypeError)
      else Inr (val1, source1))"

subsection \<open>Enrichment from the table of postal codes\<close>






subsection \<open>Merging two auctions\<close>














subsection \<open>Finding the matches and the whole pipeline\<close>







section \<open>Auxiliary definitions\<close>

text \<open>A \<open>PriceEstimate\<close> with the given sample count, data age, precision and price.\<close>

definition sample_estimate :: "int \<Rightarrow> int \<Rightarrow> string \<Rightarrow> real option \<Rightarrow> PriceEstimate" where
  "sample_estimate n d g p =
     \<lparr> source_type = DVF, source_name = ''DVF'', prix_m2 = p, prix_total = None,
       nb_data_points = n, date_range_days = d, geographic_match = g,
       source_url = None, est_notes = [] \<rparr>"

text \<open>The reliability level agrees with the score and the number of estimates.\<close>

definition classified :: "MultiSourceEstimate \<Rightarrow> bool" where
  "classified s = (reliability s = level_of (reliability_score s) (length (estimates s)))"

text \<open>The combined price that \<open>_recalculate\<close> computes from the valid estimates.\<close>

definition combined_of :: "PriceEstimate list \<Rightarrow> real" where
  "combined_of es =
     (if (\<Sum>e\<leftarrow>es. confidence_score e) > 0
      then (\<Sum>e\<leftarrow>es. the (prix_m2 e) * confidence_score e) / (\<Sum>e\<leftarrow>es. confidence_score e)
      else (\<Sum>e\<leftarrow>es. the (prix_m2 e)) / real (length es))"

text \<open>
  Every accumulated estimate has a true price, and the combined values are those of the
  accumulated list.
\<close>

definition consistent :: "MultiSourceEstimate \<Rightarrow> bool" where
  "consistent s \<longleftrightarrow>
     (\<forall>e\<in>set (estimates s). truthy (prix_m2 e)) \<and>
     (estimates s \<noteq> [] \<longrightarrow>
        prix_m2_combined s = Some (combined_of (estimates s)) \<and>
        prix_m2_min s = Some (py_min (map (\<lambda>e. the (prix_m2 e)) (estimates s))) \<and>
        prix_m2_max s = Some (py_max (map (\<lambda>e. the (prix_m2 e)) (estimates s))))"

text \<open>The samples that are present and lie within the two bounds, in their order.\<close>

definition in_range :: "real option list \<Rightarrow> real list" where
  "in_range ts = filter (\<lambda>x. 500 \<le> x \<and> x \<le> 15000) (map the (filter (\<lambda>t. t \<noteq> None) ts))"


text \<open>
  A signal is a triple: whether it is available, whether it is satisfied, and its weight.
  The score of a list of signals is the sum of the weights of the available and satisfied
  ones over the sum of the weights of the available ones, and 0 when no signal is
  available.
\<close>

definition satisfied_weight :: "bool \<times> bool \<times> real \<Rightarrow> real" where
  "satisfied_weight = (\<lambda>(available, satisfied, w). if available \<and> satisfied then w else 0)"

definition available_weight :: "bool \<times> bool \<times> real \<Rightarrow> real" where
  "available_weight = (\<lambda>(available, satisfied, w). if available then w else 0)"







text \<open>A stand-in for \<open>str\<close> on the values that are not strings: the empty text.\<close>

definition blank_str :: "pyval \<Rightarrow> string" where
  "blank_str v = []"



section \<open>Properties of the price sources\<close>

lemma points_score_mono: "n \<le> n' \<Longrightarrow> points_score n \<le> points_score n'"
  by (simp add: points_score_def)

lemma recency_score_antimono: "d' \<le> d \<Longrightarrow> recency_score d \<le> recency_score d'"
  by (simp add: recency_score_def)

lemma points_score_range: "0 \<le> points_score n \<and> points_score n \<le> 40"
  by (simp add: points_score_def)

lemma recency_score_range: "0 \<le> recency_score d \<and> recency_score d \<le> 30"
  by (simp add: recency_score_def)

lemma geographic_score_range: "0 \<le> geographic_score g \<and> geographic_score g \<le> 30"
  by (simp add: geographic_score_def)

lemma confidence_score_range: "0 \<le> confidence_score e \<and> confidence_score e \<le> 100"
  using points_score_range [of "nb_data_points e"] recency_score_range [of "date_range_days e"]
    geographic_score_range [of "geographic_match e"]
  by (simp add: confidence_score_def)

text \<open>
  Claim C6. The confidence score of a price estimate lies between 0 and 100. It does not
  decrease when the sample count grows (age and precision fixed), nor when the data age
  shrinks (sample count and precision fixed); and, sample count and age fixed, the
  precision \<open>exact\<close> scores at least as much as \<open>commune\<close>, which scores at least as
  much as \<open>department\<close> (and no precision scores more than \<open>exact\<close>).
\<close>

theorem confidence_score_bounded_monotone:
  "0 \<le> confidence_score e \<and> confidence_score e \<le> 100
   \<and> (nb_data_points e \<le> nb_data_points e' \<and> date_range_days e = date_range_days e'
        \<and> geographic_match e = geographic_match e'
        \<longrightarrow> confidence_score e \<le> confidence_score e')
   \<and> (date_range_days e' \<le> date_range_days e \<and> nb_data_points e = nb_data_points e'
        \<and> geographic_match e = geographic_match e'
        \<longrightarrow> confidence_score e \<le> confidence_score e')
   \<and> confidence_score (e\<lparr>geographic_match := ''department''\<rparr>)
        \<le> confidence_score (e\<lparr>geographic_match := ''commune''\<rparr>)
   \<and> confidence_score (e\<lparr>geographic_match := ''commune''\<rparr>)
        \<le> confidence_score (e\<lparr>geographic_match := ''exact''\<rparr>)
   \<and> confidence_score (e\<lparr>geographic_match := g\<rparr>)
        \<le> confidence_score (e\<lparr>geographic_match := ''exact''\<rparr>)"
proof -
  have mono_n: "nb_data_points e \<le> nb_data_points e' \<and> date_range_days e = date_range_days e'
        \<and> geographic_match e = geographic_match e'
        \<longrightarrow> confidence_score e \<le> confidence_score e'"
    using points_score_mono [of "nb_data_points e" "nb_data_points e'"]
    by (simp add: confidence_score_def)
  have mono_d: "date_range_days e' \<le> date_range_days e \<and> nb_data_points e = nb_data_points e'
        \<and> geographic_match e = geographic_match e'
        \<longrightarrow> confidence_score e \<le> confidence_score e'"
    using recency_score_antimono [of "date_range_days e'" "date_range_days e"]
    by (simp add: confidence_score_def)
  have geo: "confidence_score (e\<lparr>geographic_match := ''department''\<rparr>)
        \<le> confidence_score (e\<lparr>geographic_match := ''commune''\<rparr>)"
    "confidence_score (e\<lparr>geographic_match := ''commune''\<rparr>)
        \<le> confidence_score (e\<lparr>geographic_match := ''exact''\<rparr>)"
    "confidence_score (e\<lparr>geographic_match := g\<rparr>)
        \<le> confidence_score (e\<lparr>geographic_match := ''exact''\<rparr>)"
    by (simp_all add: confidence_score_def geographic_score_def)
  from confidence_score_range [of e] mono_n mono_d geo show ?thesis by blast
qed

text \<open>
  Witness for C6: from 4 to 12 samples the score goes from 40 to 60, and so it does from
  an age of 400 days to one of 100 days.
\<close>

theorem confidence_score_bounded_monotone_witness:
  "nb_data_points (sample_estimate 4 400 ''commune'' (Some 3000))
     \<le> nb_data_points (sample_estimate 12 400 ''commune'' (Some 3000))
   \<and> confidence_score (sample_estimate 4 400 ''commune'' (Some 3000)) = 40
   \<and> confidence_score (sample_estimate 12 400 ''commune'' (Some 3000)) = 60
   \<and> date_range_days (sample_estimate 4 100 ''commune'' (Some 3000))
     \<le> date_range_days (sample_estimate 4 400 ''commune'' (Some 3000))
   \<and> confidence_score (sample_estimate 4 100 ''commune'' (Some 3000)) = 60"
  using confidence_score_bounded_monotone
    [of "sample_estimate 4 400 ''commune'' (Some 3000)"
        "sample_estimate 12 400 ''commune'' (Some 3000)" "''exact''"]
    confidence_score_bounded_monotone
    [of "sample_estimate 4 400 ''commune'' (Some 3000)"
        "sample_estimate 4 100 ''commune'' (Some 3000)" "''exact''"]
  by (simp add: sample_estimate_def confidence_score_def points_score_def recency_score_def
      geographic_score_def)

lemma store_by_type_fields [simp]:
  "estimates (store_by_type s e) = estimates s"
  "prix_m2_combined (store_by_type s e) = prix_m2_combined s"
  "prix_m2_min (store_by_type s e) = prix_m2_min s"
  "prix_m2_max (store_by_type s e) = prix_m2_max s"
  by (simp_all add: store_by_type_def)

lemma foldl_store_by_type_fields [simp]:
  "estimates (foldl store_by_type s es) = estimates s"
  "prix_m2_combined (foldl store_by_type s es) = prix_m2_combined s"
  "prix_m2_min (foldl store_by_type s es) = prix_m2_min s"
  "prix_m2_max (foldl store_by_type s es) = prix_m2_max s"
  by (induction es arbitrary: s) simp_all

lemma calculate_reliability_fields [simp]:
  "estimates (calculate_reliability s) = estimates s"
  "prix_m2_combined (calculate_reliability s) = prix_m2_combined s"
  "prix_m2_min (calculate_reliability s) = prix_m2_min s"
  "prix_m2_max (calculate_reliability s) = prix_m2_max s"
  by (simp_all add: calculate_reliability_def Let_def)

lemma calculate_reliability_level:
  "reliability (calculate_reliability s) =
     level_of (reliability_score (calculate_reliability s)) (length (estimates s))"
proof (cases "estimates s = []")
  case True
  then show ?thesis by (simp add: calculate_reliability_def level_of_def)
next
  case False
  then show ?thesis by (simp add: calculate_reliability_def Let_def)
qed

lemma recalculate_estimates [simp]: "estimates (recalculate s) = estimates s"
  by (simp add: recalculate_def Let_def)

lemma calculate_reliability_classified: "classified (calculate_reliability s)"
  using calculate_reliability_level [of s] by (simp add: classified_def)

lemma recalculate_cases:
  "recalculate s = s \<or> (\<exists>s'. recalculate s = calculate_reliability s')"
  by (auto simp add: recalculate_def Let_def)

lemma recalculate_classified: "classified s \<Longrightarrow> classified (recalculate s)"
  using recalculate_cases [of s] calculate_reliability_classified by auto

lemma add_estimate_classified: "classified s \<Longrightarrow> classified (add_estimate s e)"
proof (cases "truthy (prix_m2 e)")
  case True
  have "\<exists>s'. recalculate (s\<lparr>estimates := estimates s @ [e]\<rparr>) = calculate_reliability s'"
    using True by (auto simp add: recalculate_def Let_def)
  then show ?thesis
    using True calculate_reliability_classified by (auto simp add: add_estimate_def)
next
  case False
  assume "classified s"
  with False show ?thesis by (simp add: add_estimate_def)
qed

lemma foldl_add_estimate_classified:
  "classified s \<Longrightarrow> classified (foldl add_estimate s es)"
  by (induction es arbitrary: s) (simp_all add: add_estimate_classified)

lemma add_all_classified: "classified (add_all es)"
  unfolding add_all_def
  by (rule foldl_add_estimate_classified)
     (simp add: classified_def empty_estimate_def level_of_def)

text \<open>
  Claim C1. After any sequence of \<open>add_estimate\<close> calls on a fresh
  \<open>MultiSourceEstimate\<close>, the reliability level is \<open>HIGH\<close> when the score is at least 70
  and two estimates or more are accumulated; otherwise \<open>MEDIUM\<close> when the score is at
  least 40; otherwise \<open>LOW\<close> when the score is positive; otherwise \<open>INSUFFICIENT\<close>. With
  a single accumulated estimate the level is never \<open>HIGH\<close>.
\<close>

theorem reliability_level_classification:
  "reliability (add_all es) =
     (if reliability_score (add_all es) \<ge> 70 \<and> length (estimates (add_all es)) \<ge> 2 then HIGH
      else if reliability_score (add_all es) \<ge> 40 then MEDIUM
      else if reliability_score (add_all es) > 0 then LOW
      else INSUFFICIENT)
   \<and> (length (estimates (add_all es)) = 1 \<longrightarrow> reliability (add_all es) \<noteq> HIGH)"
  using add_all_classified [of es]
  by (simp add: classified_def level_of_def)

lemma py_single [simp]: "py_min [p] = p" "py_max [p] = p"
  by (simp_all add: py_min_def py_max_def)

text \<open>
  Witness for C1: one estimate of confidence 100 gives the score 75, which clears 70, and
  the level is \<open>MEDIUM\<close>.
\<close>

theorem reliability_level_classification_witness:
  "length (estimates (add_all [sample_estimate 20 100 ''exact'' (Some 3000)])) = 1
   \<and> reliability_score (add_all [sample_estimate 20 100 ''exact'' (Some 3000)]) = 75
   \<and> reliability (add_all [sample_estimate 20 100 ''exact'' (Some 3000)]) = MEDIUM"
proof -
  let ?e = "sample_estimate 20 100 ''exact'' (Some 3000)"
  have c: "confidence_score ?e = 100"
    by (simp add: sample_estimate_def confidence_score_def points_score_def recency_score_def
        geographic_score_def)
  have t: "truthy (prix_m2 ?e)"
    by (simp add: sample_estimate_def truthy_def)
  have n: "estimates (add_all [?e]) = [?e]"
    using t by (simp add: add_all_def add_estimate_def empty_estimate_def)
  have sc: "reliability_score (add_all [?e]) = 75"
    using t c
    by (simp add: add_all_def add_estimate_def empty_estimate_def recalculate_def Let_def
        calculate_reliability_def prices_of_def agreement_of_def)
  show ?thesis
    using reliability_level_classification [of "[?e]"] n sc by simp
qed

lemma confidence_score_nonneg: "0 \<le> confidence_score e"
  by (simp add: confidence_score_def points_score_def recency_score_def geographic_score_def)

lemma zip_map_prod:
  "map (\<lambda>(p, w). p * w) (zip (map f xs) (map g xs)) = map (\<lambda>x. f x * g x) xs"
  by (induction xs) simp_all

lemma sum_weights_nonneg: "0 \<le> sum_list (map confidence_score es)"
  by (induction es) (simp_all add: confidence_score_nonneg)

lemma sum_weights_pos_iff:
  "sum_list (map confidence_score es) > 0 \<longleftrightarrow> \<not> (\<forall>e\<in>set es. confidence_score e = 0)"
proof (induction es)
  case Nil
  show ?case by simp
next
  case (Cons e es)
  have "0 \<le> confidence_score e" by (rule confidence_score_nonneg)
  moreover have "0 \<le> sum_list (map confidence_score es)" by (rule sum_weights_nonneg)
  ultimately show ?case using Cons.IH by auto
qed

lemma foldl_min_le: "foldl min (a::real) ps \<le> a"
proof (induction ps arbitrary: a)
  case Nil
  show ?case by simp
next
  case (Cons q ps)
  have "foldl min (min a q) ps \<le> min a q" by (rule Cons.IH)
  also have "min a q \<le> a" by simp
  finally show ?case by simp
qed

lemma foldl_min_le_elem: "p \<in> set ps \<Longrightarrow> foldl min (a::real) ps \<le> p"
proof (induction ps arbitrary: a)
  case Nil
  then show ?case by simp
next
  case (Cons q ps)
  show ?case
  proof (cases "p = q")
    case True
    have "foldl min (min a q) ps \<le> min a q" by (rule foldl_min_le)
    with True show ?thesis by simp
  next
    case False
    with Cons show ?thesis by simp
  qed
qed

lemma foldl_max_ge: "(a::real) \<le> foldl max a ps"
proof (induction ps arbitrary: a)
  case Nil
  show ?case by simp
next
  case (Cons q ps)
  have "a \<le> max a q" by simp
  also have "max a q \<le> foldl max (max a q) ps" by (rule Cons.IH)
  finally show ?case by simp
qed

lemma foldl_max_ge_elem: "p \<in> set ps \<Longrightarrow> p \<le> foldl max (a::real) ps"
proof (induction ps arbitrary: a)
  case Nil
  then show ?case by simp
next
  case (Cons q ps)
  show ?case
  proof (cases "p = q")
    case True
    have "max a q \<le> foldl max (max a q) ps" by (rule foldl_max_ge)
    with True show ?thesis by simp
  next
    case False
    with Cons show ?thesis by simp
  qed
qed

lemma py_min_le: "p \<in> set ps \<Longrightarrow> py_min ps \<le> p"
  by (cases ps) (auto simp add: py_min_def foldl_min_le foldl_min_le_elem)

lemma py_max_ge: "p \<in> set ps \<Longrightarrow> p \<le> py_max ps"
  by (cases ps) (auto simp add: py_max_def foldl_max_ge foldl_max_ge_elem)

lemma recalculate_values:
  assumes "filter (\<lambda>e. truthy (prix_m2 e)) (estimates s) = vs" and "vs \<noteq> []"
  shows "prix_m2_combined (recalculate s) = Some (combined_of vs)"
    and "prix_m2_min (recalculate s) = Some (py_min (map (\<lambda>e. the (prix_m2 e)) vs))"
    and "prix_m2_max (recalculate s) = Some (py_max (map (\<lambda>e. the (prix_m2 e)) vs))"
  using assms
  by (simp_all add: recalculate_def Let_def combined_of_def zip_map_prod)






lemma add_estimate_consistent:
  assumes "consistent s"
  shows "consistent (add_estimate s e)"
proof (cases "truthy (prix_m2 e)")
  case False
  with assms show ?thesis by (simp add: add_estimate_def)
next
  case True
  let ?s = "s\<lparr>estimates := estimates s @ [e]\<rparr>"
  have all: "\<forall>x\<in>set (estimates s @ [e]). truthy (prix_m2 x)"
    using assms True by (simp add: consistent_def)
  then have f: "filter (\<lambda>e. truthy (prix_m2 e)) (estimates ?s) = estimates s @ [e]"
    by simp
  have ne: "estimates s @ [e] \<noteq> []" by simp
  note v = recalculate_values [OF f ne]
  have "estimates (recalculate ?s) = estimates s @ [e]" by simp
  with v all have "consistent (recalculate ?s)"
    by (simp add: consistent_def)
  with True show ?thesis by (simp add: add_estimate_def)
qed

lemma foldl_add_estimate_consistent:
  "consistent s \<Longrightarrow> consistent (foldl add_estimate s es)"
  by (induction es arbitrary: s) (simp_all add: add_estimate_consistent)

lemma add_all_consistent: "consistent (add_all es)"
  unfolding add_all_def
  by (rule foldl_add_estimate_consistent) (simp add: consistent_def empty_estimate_def)

text \<open>
  Claim C2. When the list of accumulated estimates is not empty, the combined price is the
  sum of price times confidence over the sum of the confidences, taken over the
  accumulated estimates; when every accumulated estimate has confidence 0, it is the
  arithmetic mean of their prices.
\<close>

theorem combined_price_weighted_average:
  assumes "estimates (add_all es) \<noteq> []"
  shows "prix_m2_combined (add_all es) =
     Some (if \<forall>e\<in>set (estimates (add_all es)). confidence_score e = 0
           then (\<Sum>e\<leftarrow>estimates (add_all es). the (prix_m2 e))
                  / real (length (estimates (add_all es)))
           else (\<Sum>e\<leftarrow>estimates (add_all es). the (prix_m2 e) * confidence_score e)
                  / (\<Sum>e\<leftarrow>estimates (add_all es). confidence_score e))"
  using add_all_consistent [of es] assms sum_weights_pos_iff [of "estimates (add_all es)"]
  by (simp add: consistent_def combined_of_def)


text \<open>
  Claim C3, amended. \<open>add_estimate\<close> skips an estimate exactly when its price per area
  is \<open>None\<close> or 0, and then leaves the state as it was. Every estimate with a price that is
  neither \<open>None\<close> nor 0 is appended to the accumulated list and contributes to the
  combined values: they are all set, and the price of the estimate lies between the
  minimum and the maximum.
\<close>

theorem add_estimate_skips_null_or_zero:
  "estimates (add_estimate s e) =
     (if prix_m2 e = None \<or> prix_m2 e = Some 0 then estimates s else estimates s @ [e])
   \<and> (prix_m2 e = None \<or> prix_m2 e = Some 0 \<longrightarrow> add_estimate s e = s)
   \<and> (prix_m2 e \<noteq> None \<and> prix_m2 e \<noteq> Some 0 \<longrightarrow>
        (\<exists>lo c hi. prix_m2_min (add_estimate s e) = Some lo
           \<and> prix_m2_combined (add_estimate s e) = Some c
           \<and> prix_m2_max (add_estimate s e) = Some hi
           \<and> lo \<le> the (prix_m2 e) \<and> the (prix_m2 e) \<le> hi))"
proof (cases "truthy (prix_m2 e)")
  case False
  then have "prix_m2 e = None \<or> prix_m2 e = Some 0"
    by (cases "prix_m2 e") (simp_all add: truthy_def)
  with False show ?thesis by (auto simp add: add_estimate_def)
next
  case True
  then have nz: "prix_m2 e \<noteq> None \<and> prix_m2 e \<noteq> Some 0"
    by (cases "prix_m2 e") (simp_all add: truthy_def)
  let ?s = "s\<lparr>estimates := estimates s @ [e]\<rparr>"
  let ?vs = "filter (\<lambda>e. truthy (prix_m2 e)) (estimates s) @ [e]"
  have f: "filter (\<lambda>e. truthy (prix_m2 e)) (estimates ?s) = ?vs"
    using True by simp
  have ne: "?vs \<noteq> []" by simp
  note v = recalculate_values [OF f ne]
  have "the (prix_m2 e) \<in> set (map (\<lambda>e. the (prix_m2 e)) ?vs)" by simp
  then have "py_min (map (\<lambda>e. the (prix_m2 e)) ?vs) \<le> the (prix_m2 e)"
    and "the (prix_m2 e) \<le> py_max (map (\<lambda>e. the (prix_m2 e)) ?vs)"
    by (rule py_min_le, rule py_max_ge)
  with v True have "\<exists>lo c hi. prix_m2_min (add_estimate s e) = Some lo
           \<and> prix_m2_combined (add_estimate s e) = Some c
           \<and> prix_m2_max (add_estimate s e) = Some hi
           \<and> lo \<le> the (prix_m2 e) \<and> the (prix_m2 e) \<le> hi"
    by (simp add: add_estimate_def)
  moreover have "estimates (add_estimate s e) = estimates s @ [e]"
    using True by (simp add: add_estimate_def)
  ultimately show ?thesis using nz by auto
qed

text \<open>
  Counterexample for C3 as stated: an estimate whose price is 0, hence not \<open>None\<close>, is
  not accumulated; the fresh state stays empty and without a combined price.
\<close>

theorem add_estimate_zero_price_counterexample:
  "prix_m2 (sample_estimate 20 100 ''exact'' (Some 0)) \<noteq> None
   \<and> estimates (add_estimate empty_estimate (sample_estimate 20 100 ''exact'' (Some 0))) = []
   \<and> prix_m2_combined (add_estimate empty_estimate (sample_estimate 20 100 ''exact'' (Some 0)))
       = None"
  by (simp add: add_estimate_def truthy_def sample_estimate_def empty_estimate_def)

lemma foldl_add_estimate_estimates:
  "estimates (foldl add_estimate s es) = estimates s @ filter (\<lambda>e. truthy (prix_m2 e)) es"
  by (induction es arbitrary: s) (simp_all add: add_estimate_def)

lemma add_all_estimates: "estimates (add_all es) = filter (\<lambda>e. truthy (prix_m2 e)) es"
  by (simp add: add_all_def foldl_add_estimate_estimates empty_estimate_def)

lemma sample_estimate_fields [simp]:
  "prix_m2 (sample_estimate n d g p) = p"
  "nb_data_points (sample_estimate n d g p) = n"
  "date_range_days (sample_estimate n d g p) = d"
  "geographic_match (sample_estimate n d g p) = g"
  by (simp_all add: sample_estimate_def)

text \<open>
  Witness for C2: prices 3000 and 4000 with confidences 100 and 40 combine to 23000/7;
  prices 3000 and 5000 with confidence 0 combine to their mean 4000.
\<close>

theorem combined_price_weighted_average_witness:
  "estimates (add_all [sample_estimate 20 100 ''exact'' (Some 3000),
                       sample_estimate 4 400 ''commune'' (Some 4000)]) \<noteq> []
   \<and> prix_m2_combined (add_all [sample_estimate 20 100 ''exact'' (Some 3000),
                       sample_estimate 4 400 ''commune'' (Some 4000)]) = Some (23000 / 7)
   \<and> estimates (add_all [sample_estimate 0 1000 [] (Some 3000),
                       sample_estimate 0 1000 [] (Some 5000)]) \<noteq> []
   \<and> prix_m2_combined (add_all [sample_estimate 0 1000 [] (Some 3000),
                       sample_estimate 0 1000 [] (Some 5000)]) = Some 4000"
  using combined_price_weighted_average
      [of "[sample_estimate 20 100 ''exact'' (Some 3000),
            sample_estimate 4 400 ''commune'' (Some 4000)]"]
    combined_price_weighted_average
      [of "[sample_estimate 0 1000 [] (Some 3000), sample_estimate 0 1000 [] (Some 5000)]"]
  by (simp add: add_all_estimates truthy_def confidence_score_def points_score_def
      recency_score_def geographic_score_def)


text \<open>
  Witness for C3, amended: an estimate with the price 3000 is accumulated on the fresh
  state, one with the price \<open>None\<close> leaves it as it was.
\<close>

theorem add_estimate_skips_null_or_zero_witness:
  "prix_m2 (sample_estimate 20 100 ''exact'' (Some 3000)) \<noteq> None
   \<and> prix_m2 (sample_estimate 20 100 ''exact'' (Some 3000)) \<noteq> Some 0
   \<and> estimates (add_estimate empty_estimate (sample_estimate 20 100 ''exact'' (Some 3000)))
        = [sample_estimate 20 100 ''exact'' (Some 3000)]
   \<and> prix_m2_combined (add_estimate empty_estimate (sample_estimate 20 100 ''exact'' (Some 3000)))
        \<noteq> None
   \<and> prix_m2 (sample_estimate 20 100 ''exact'' None) = None
   \<and> add_estimate empty_estimate (sample_estimate 20 100 ''exact'' None) = empty_estimate"
  using add_estimate_skips_null_or_zero
      [of empty_estimate "sample_estimate 20 100 ''exact'' (Some 3000)"]
    add_estimate_skips_null_or_zero [of empty_estimate "sample_estimate 20 100 ''exact'' None"]
  by (auto simp add: empty_estimate_def)

section \<open>Properties of the aggregation\<close>

lemma collect_valid_eq: "collect_valid acc ts = acc @ in_range ts"
proof (induction ts arbitrary: acc)
  case Nil
  show ?case by (simp add: in_range_def)
next
  case (Cons t ts)
  show ?case
  proof (cases t)
    case None
    then show ?thesis using Cons.IH by (simp add: truthy_def in_range_def)
  next
    case (Some x)
    then show ?thesis
      using Cons.IH
      by (auto simp add: truthy_def in_range_def MIN_PRICE_M2_def MAX_PRICE_M2_def)
  qed
qed

lemma aggregate_eq:
  "aggregate ts =
     (if length (in_range ts) < 3 then (None, length (in_range ts))
      else (Some (median_price (in_range ts)), length (in_range ts)))"
  by (simp add: aggregate_def collect_valid_eq MIN_COMPARABLES_def Let_def)


lemma in_range_mset: "mset ts = mset ts' \<Longrightarrow> mset (in_range ts) = mset (in_range ts')"
proof -
  assume "mset ts = mset ts'"
  then have "mset (filter (\<lambda>t. t \<noteq> None) ts) = mset (filter (\<lambda>t. t \<noteq> None) ts')"
    by (simp only: mset_filter)
  then have "mset (map the (filter (\<lambda>t. t \<noteq> None) ts)) = mset (map the (filter (\<lambda>t. t \<noteq> None) ts'))"
    by (metis mset_map)
  then show ?thesis
    unfolding in_range_def by (simp only: mset_filter)
qed

lemma sort_mset_eq: "mset xs = mset ys \<Longrightarrow> sort xs = sort (ys :: real list)"
  by (rule properties_for_sort) simp_all

text \<open>
  Claim C8. The aggregation gives the same central value and the same count on a list of
  samples and on any permutation of it (two lists with the same multiset of elements).
\<close>

theorem aggregate_permutation_invariant:
  assumes "mset ts = mset ts'"
  shows "aggregate ts = aggregate ts'"
proof -
  have m: "mset (in_range ts) = mset (in_range ts')"
    using assms by (rule in_range_mset)
  then have "sort (in_range ts) = sort (in_range ts')" by (rule sort_mset_eq)
  then have "median_price (in_range ts) = median_price (in_range ts')"
    by (simp add: median_price_def)
  moreover have "length (in_range ts) = length (in_range ts')"
    using m by (metis size_mset)
  ultimately show ?thesis by (simp add: aggregate_eq)
qed

text \<open>Witness for C8: the samples of the example of C5, in another order.\<close>

theorem aggregate_permutation_invariant_witness:
  "mset [Some 100, Some 5000000, Some 2000, Some 2100, Some 2200]
     = mset [Some 2200, Some 100, Some 2100, Some 5000000, Some (2000::real)]
   \<and> aggregate [Some 2200, Some 100, Some 2100, Some 5000000, Some 2000] = (Some 2100, 3)
   \<and> aggregate [Some 100, Some 5000000, Some 2000, Some 2100, Some 2200] = (Some 2100, 3)"
proof -
  have p: "mset [Some 100, Some 5000000, Some 2000, Some 2100, Some 2200]
     = mset [Some 2200, Some 100, Some 2100, Some 5000000, Some (2000::real)]"
    by simp
  have ex: "in_range [Some 100, Some 5000000, Some 2000, Some 2100, Some 2200]
              = [2000, 2100, 2200]"
    by (simp add: in_range_def)
  have "aggregate [Some 100, Some 5000000, Some 2000, Some 2100, Some 2200] = (Some 2100, 3)"
    unfolding aggregate_eq ex by (simp add: median_price_def)
  with p aggregate_permutation_invariant [OF p] show ?thesis by simp
qed

section \<open>Properties of the cross validator\<close>








lemma unavailable_weight [simp]:
  "satisfied_weight (False, sat, w) = 0" "available_weight (False, sat, w) = 0"
  by (simp_all add: satisfied_weight_def available_weight_def)

lemma truthy_simps [simp]: "truthy None = False" "truthy (Some x) = (x \<noteq> 0)"
  by (simp_all add: truthy_def)






text \<open>
  Claim C9. In the field-level merge, for the field \<open>code_postal\<close> with a value on both
  sides: when exactly one of the two values matches the pattern of five digits, this
  value wins and its source is returned as the provenance; when both match, or neither
  does, the value of the first source wins.
\<close>

theorem pick_best_value_code_postal:
  assumes "py_truthy val1" and "py_truthy val2"
  shows "pick_best_value pystr val1 val2 source1 source2 ''code_postal'' =
     Inr (if match_5_digits (str_of pystr val1) \<and> \<not> match_5_digits (str_of pystr val2)
          then (val1, source1)
          else if match_5_digits (str_of pystr val2) \<and> \<not> match_5_digits (str_of pystr val1)
          then (val2, source2)
          else (val1, source1))"
  using assms by (simp add: pick_best_value_def Let_def)

text \<open>
  Witness for C9: \<open>750x1\<close> from A against \<open>75015\<close> from B gives \<open>75015\<close> from B; two
  valid codes, and two invalid ones, give the value of A.
\<close>

theorem pick_best_value_code_postal_witness:
  "py_truthy (PStr ''750x1'') \<and> py_truthy (PStr ''75015'')
   \<and> pick_best_value blank_str (PStr ''750x1'') (PStr ''75015'') ''A'' ''B'' ''code_postal''
       = Inr (PStr ''75015'', ''B'')
   \<and> pick_best_value blank_str (PStr ''75015'') (PStr ''92100'') ''A'' ''B'' ''code_postal''
       = Inr (PStr ''75015'', ''A'')
   \<and> pick_best_value blank_str (PStr ''750x1'') (PStr ''Paris'') ''A'' ''B'' ''code_postal''
       = Inr (PStr ''750x1'', ''A'')"
proof -
  have t: "py_truthy (PStr ''750x1'')" "py_truthy (PStr ''75015'')" "py_truthy (PStr ''92100'')"
    "py_truthy (PStr ''Paris'')"
    by simp_all
  have d: "\<not> match_5_digits ''750x1''" "match_5_digits ''75015''" "match_5_digits ''92100''"
    "\<not> match_5_digits ''Paris''"
    by (simp_all add: match_5_digits_def is_digit_def)
  show ?thesis
    using pick_best_value_code_postal [OF t(1) t(2), of blank_str "''A''" "''B''"]
      pick_best_value_code_postal [OF t(2) t(3), of blank_str "''A''" "''B''"]
      pick_best_value_code_postal [OF t(1) t(4), of blank_str "''A''" "''B''"]
      d
    by (simp add: str_of_def)
qed



















end
